theory Spec2Isabelle
  imports Complex_Main "HOL-Library.Char_ord" "HOL-Library.List_Lexorder"
    "HOL-Library.Product_Lexorder"
begin

section \<open>Floating-point values and library exceptions\<close>

text \<open>
  The module \<^verbatim>\<open>stability.py\<close> computes on NumPy \<^verbatim>\<open>float64\<close> arrays. A finite float is
  modelled by the real number it stands for (rounding is not modelled); the three special
  values a float operation can produce are kept apart, because the code tests for NaN and
  compares against thresholds: \<open>NaN\<close> is the "undefined" sentinel of the module.
  An array cell read from a data frame is a \<open>real option\<close>: \<open>None\<close> is NaN (a missing
  value), \<open>Some x\<close> a finite number. Infinite cells in the input data are outside the model.
\<close>

datatype fl = Fin real | PInf | NInf | NaN

datatype error = ValueError | KeyError | LibraryError

text \<open>IEEE division of two finite floats, as NumPy does it elementwise (a warning, no raise).\<close>

definition fdiv :: "real \<Rightarrow> real \<Rightarrow> fl" where
  "fdiv a b =
     (if b \<noteq> 0 then Fin (a / b)
      else if a > 0 then PInf
      else if a < 0 then NInf
      else NaN)"

text \<open>\<^verbatim>\<open>np.log\<close>: \<open>-inf\<close> at zero, NaN on negative arguments.\<close>

fun flog :: "fl \<Rightarrow> fl" where
  "flog (Fin x) = (if x > 0 then Fin (ln x) else if x = 0 then NInf else NaN)"
| "flog PInf = PInf"
| "flog NInf = NaN"
| "flog NaN = NaN"

text \<open>Product of a finite float with a float: \<open>0 * inf\<close> is NaN.\<close>

fun fmul :: "real \<Rightarrow> fl \<Rightarrow> fl" where
  "fmul d (Fin x) = Fin (d * x)"
| "fmul d PInf = (if d > 0 then PInf else if d < 0 then NInf else NaN)"
| "fmul d NInf = (if d > 0 then NInf else if d < 0 then PInf else NaN)"
| "fmul d NaN = NaN"

fun fadd :: "fl \<Rightarrow> fl \<Rightarrow> fl" where
  "fadd (Fin x) (Fin y) = Fin (x + y)"
| "fadd NaN _ = NaN"
| "fadd _ NaN = NaN"
| "fadd PInf NInf = NaN"
| "fadd NInf PInf = NaN"
| "fadd PInf _ = PInf"
| "fadd _ PInf = PInf"
| "fadd NInf _ = NInf"
| "fadd _ NInf = NInf"

text \<open>\<^verbatim>\<open>np.sum\<close> of a float array, from zero.\<close>

definition fsum :: "fl list \<Rightarrow> fl" where
  "fsum xs = foldl fadd (Fin 0) xs"

text \<open>\<^verbatim>\<open>np.isnan\<close> on a scalar, and the comparison \<^verbatim>\<open>x >= t\<close> of a float with a finite
  threshold (every comparison with NaN is false).\<close>

fun isnan :: "fl \<Rightarrow> bool" where
  "isnan NaN = True"
| "isnan _ = False"

fun fge :: "fl \<Rightarrow> real \<Rightarrow> bool" where
  "fge (Fin x) t = (x \<ge> t)"
| "fge PInf t = True"
| "fge NInf t = False"
| "fge NaN t = False"

section \<open>The NumPy array functions used by the PSI estimator\<close>

text \<open>\<^verbatim>\<open>x[~np.isnan(x)]\<close>: the cells that are not NaN, in order.\<close>

fun strip_nan :: "real option list \<Rightarrow> real list" where
  "strip_nan [] = []"
| "strip_nan (None # xs) = strip_nan xs"
| "strip_nan (Some x # xs) = x # strip_nan xs"

text \<open>
  \<^verbatim>\<open>np.linspace(0, 1, num)\<close>: \<open>num\<close> evenly spaced points from 0 to 1, both ends
  included; one point is \<open>[0]\<close>, no point is the empty array. A negative \<open>num\<close> raises
  \<^verbatim>\<open>ValueError\<close>.
\<close>

definition linspace01 :: "int \<Rightarrow> error + real list" where
  "linspace01 num =
     (if num < 0 then Inl ValueError
      else if num = 0 then Inr []
      else if num = 1 then Inr [0]
      else Inr (map (\<lambda>i. real i / real_of_int (num - 1)) [0 ..< nat num]))"

text \<open>
  \<^verbatim>\<open>np.quantile(a, q)\<close> with the default linear interpolation, for a non-empty \<open>a\<close> and
  \<open>0 \<le> q \<le> 1\<close>: the virtual index is \<open>q * (n - 1)\<close> into the sorted array, its floor and
  the next position (clipped to the last one) are interpolated by the fractional part.
\<close>

definition quantile1 :: "real list \<Rightarrow> real \<Rightarrow> real" where
  "quantile1 a q =
     (let s = sort a;
          n = length s;
          v = q * real (n - 1);
          j = nat \<lfloor>v\<rfloor>;
          g = v - real j;
          lo = s ! j;
          hi = s ! min (j + 1) (n - 1)
      in lo + (hi - lo) * g)"

definition quantile :: "real list \<Rightarrow> real list \<Rightarrow> real list" where
  "quantile a qs = map (quantile1 a) qs"

text \<open>\<^verbatim>\<open>np.unique\<close>: the distinct values, ascending.\<close>

definition unique :: "real list \<Rightarrow> real list" where
  "unique xs = sort (remdups xs)"

text \<open>
  \<^verbatim>\<open>np.histogram(x, bins=edges)\<close> for increasing \<open>edges\<close>: bin \<open>i\<close> counts the values in
  \<open>[edges[i], edges[i+1])\<close>, the last bin also takes its right edge; values outside the
  edges are not counted.
\<close>

definition in_bin :: "real list \<Rightarrow> nat \<Rightarrow> real \<Rightarrow> bool" where
  "in_bin edges i x =
     (edges ! i \<le> x \<and>
      (if i + 2 = length edges then x \<le> edges ! (i + 1) else x < edges ! (i + 1)))"

definition histogram :: "real list \<Rightarrow> real list \<Rightarrow> nat list" where
  "histogram x edges = map (\<lambda>i. length (filter (in_bin edges i) x)) [0 ..< length edges - 1]"

text \<open>\<^verbatim>\<open>np.clip(x, lo, hi)\<close> is \<^verbatim>\<open>minimum(maximum(x, lo), hi)\<close>, elementwise.\<close>

definition clip :: "real \<Rightarrow> real \<Rightarrow> real list \<Rightarrow> real list" where
  "clip lo hi xs = map (\<lambda>x. min (max x lo) hi) xs"

section \<open>The PSI estimator\<close>

text \<open>
  Lines 45--46: \<^verbatim>\<open>counts / max(counts.sum(), 1)\<close>. The divisor is an integer that is at
  least 1, so the quotient is a finite float.
\<close>

definition normalize :: "nat list \<Rightarrow> real list" where
  "normalize counts = map (\<lambda>c. real c / real (max (sum_list counts) 1)) counts"

text \<open>Line 51: \<^verbatim>\<open>np.sum((a_dist - e_dist) * np.log(a_dist / e_dist))\<close>.\<close>

definition psi_sum :: "real list \<Rightarrow> real list \<Rightarrow> fl" where
  "psi_sum a_dist e_dist =
     fsum (map (\<lambda>(a, e). fmul (a - e) (flog (fdiv a e))) (zip a_dist e_dist))"

text \<open>Lines 42--52 of \<^verbatim>\<open>_psi\<close>, once the bin edges are known.\<close>

definition psi_of_edges :: "real list \<Rightarrow> real list \<Rightarrow> real list \<Rightarrow> real \<Rightarrow> fl" where
  "psi_of_edges edges expected actual eps =
     (let e_counts = histogram expected edges;
          a_counts = histogram actual edges;
          e_dist = normalize e_counts;
          a_dist = normalize a_counts;
          e_dist = clip eps 1 e_dist;
          a_dist = clip eps 1 a_dist
      in psi_sum a_dist e_dist)"

text \<open>Lines 36--38 of \<^verbatim>\<open>_psi\<close>: the deduplicated quantile edges of the reference array.\<close>

definition psi_edges :: "real list \<Rightarrow> int \<Rightarrow> error + real list" where
  "psi_edges expected bins =
     (case linspace01 (bins + 1) of
        Inl err \<Rightarrow> Inl err
      | Inr quantiles \<Rightarrow> Inr (unique (quantile expected quantiles)))"

text \<open>
  \<^verbatim>\<open>_psi(expected, actual, bins, eps)\<close>. The result is \<open>Inr NaN\<close> where the source returns
  \<^verbatim>\<open>np.nan\<close>, and \<open>Inl\<close> where a library call raises.
\<close>

definition psi :: "real option list \<Rightarrow> real option list \<Rightarrow> int \<Rightarrow> real \<Rightarrow> error + fl" where
  "psi expected0 actual0 bins eps =
     (let expected = strip_nan expected0;
          actual = strip_nan actual0
      in if length expected = 0 \<or> length actual = 0 then Inr NaN
         else case psi_edges expected bins of
                Inl err \<Rightarrow> Inl err
              | Inr edges \<Rightarrow>
                  if length edges < 3 then Inr NaN
                  else Inr (psi_of_edges edges expected actual eps))"

section \<open>Data frames\<close>

text \<open>
  A Python object held in a column of dtype \<^verbatim>\<open>object\<close>: a \<^verbatim>\<open>str\<close>, a number (numbers
  compare by value), any other object (identified by the text \<^verbatim>\<open>str()\<close> gives for it),
  or one of the two missing values \<^verbatim>\<open>None\<close> and NaN.
\<close>

datatype pyval = PStr string | PNum real | PObj string | PNone | PNaN

text \<open>A column is numeric (\<open>None\<close> is NaN) or of dtype \<^verbatim>\<open>object\<close>.\<close>

datatype column = NumCol "real option list" | ObjCol "pyval list"

text \<open>
  A data frame: its number of rows and its named columns. In a frame that pandas builds,
  every column has \<open>nrows\<close> cells, and the functions below read cell \<open>i\<close> of a column
  only for \<open>i < nrows\<close>. Column names are taken to be distinct: \<^verbatim>\<open>df[c]\<close> is the first
  column named \<open>c\<close>.
\<close>

record dataframe =
  nrows :: nat
  cols :: "(string \<times> column) list"

definition columns :: "dataframe \<Rightarrow> string list" where
  "columns df = map fst (cols df)"

text \<open>\<^verbatim>\<open>df[c]\<close>, which the source evaluates only after \<^verbatim>\<open>c in df.columns\<close> held.\<close>

definition column_of :: "dataframe \<Rightarrow> string \<Rightarrow> column" where
  "column_of df c = (case map_of (cols df) c of Some col \<Rightarrow> col | None \<Rightarrow> ObjCol [])"

text \<open>\<^verbatim>\<open>df.select_dtypes(include=[np.number]).columns.tolist()\<close>.\<close>

fun is_numeric :: "column \<Rightarrow> bool" where
  "is_numeric (NumCol _) = True"
| "is_numeric (ObjCol _) = False"

definition numeric_columns :: "dataframe \<Rightarrow> string list" where
  "numeric_columns df = map fst (filter (\<lambda>(c, col). is_numeric col) (cols df))"

text \<open>\<^verbatim>\<open>sub[col].to_numpy(dtype=float)\<close> for the rows \<open>idx\<close> of a numeric column.\<close>

fun to_numpy :: "column \<Rightarrow> nat list \<Rightarrow> real option list" where
  "to_numpy (NumCol xs) idx = map (\<lambda>i. xs ! i) idx"
| "to_numpy (ObjCol _) idx = []"

section \<open>The drift report\<close>

record StabilityConfig =
  psi_bins :: int
  psi_epsilon :: real
  psi_warn :: real
  psi_alert :: real

definition default_config :: StabilityConfig where
  "default_config =
     \<lparr>psi_bins = 10, psi_epsilon = 1 / 1000000, psi_warn = 1 / 10, psi_alert = 1 / 4\<rparr>"

record drift_record =
  feature :: string
  psi_value :: fl
  ks_pvalue :: fl
  flag :: string
  pre_n :: nat
  post_n :: nat

text \<open>
  Lines 70--74. The parser \<^verbatim>\<open>pd.to_datetime\<close> is a library function and a parameter of
  the model: \<open>t i\<close> is the parsed time stamp of row \<open>i\<close> (an instant on the integer time
  line), \<open>None\<close> where the value was coerced to \<^verbatim>\<open>NaT\<close>. Every comparison with \<^verbatim>\<open>NaT\<close>
  is false.
\<close>

fun ts_lt :: "int option \<Rightarrow> int option \<Rightarrow> bool" where
  "ts_lt (Some a) (Some b) = (a < b)"
| "ts_lt _ _ = False"

fun ts_ge :: "int option \<Rightarrow> int option \<Rightarrow> bool" where
  "ts_ge (Some a) (Some b) = (a \<ge> b)"
| "ts_ge _ _ = False"

definition time_partition :: "(nat \<Rightarrow> int option) \<Rightarrow> int option \<Rightarrow> nat \<Rightarrow> nat list \<times> nat list" where
  "time_partition t split_ts n =
     (let pre = filter (\<lambda>i. ts_lt (t i) split_ts) [0 ..< n];
          post = filter (\<lambda>i. ts_ge (t i) split_ts) [0 ..< n]
      in (pre, post))"

text \<open>
  Lines 86--93. The two-sample test \<^verbatim>\<open>ks_2samp\<close> is a library function and a parameter
  \<open>ks\<close>: it returns the p-value or raises.
\<close>

definition ks_p :: "(real list \<Rightarrow> real list \<Rightarrow> error + fl) \<Rightarrow> real option list \<Rightarrow> real option list \<Rightarrow> fl" where
  "ks_p ks e a =
     (let e2 = strip_nan e;
          a2 = strip_nan a
      in if length e2 > 20 \<and> length a2 > 20
         then (case ks e2 a2 of Inr p \<Rightarrow> p | Inl err \<Rightarrow> NaN)
         else NaN)"

text \<open>Lines 95--100.\<close>

definition flag_of :: "StabilityConfig \<Rightarrow> fl \<Rightarrow> string" where
  "flag_of cfg psi_val =
     (if \<not> isnan psi_val
      then (if fge psi_val (psi_alert cfg) then ''alert''
            else if fge psi_val (psi_warn cfg) then ''warn''
            else ''ok'')
      else ''ok'')"

text \<open>The body of the loop over the numeric features, lines 82--111.\<close>

definition feature_record ::
  "(real list \<Rightarrow> real list \<Rightarrow> error + fl) \<Rightarrow> StabilityConfig \<Rightarrow> real option list \<Rightarrow>
     real option list \<Rightarrow> string \<Rightarrow> error + drift_record" where
  "feature_record ks cfg e a col =
     (case psi e a (psi_bins cfg) (psi_epsilon cfg) of
        Inl err \<Rightarrow> Inl err
      | Inr psi_val \<Rightarrow>
          Inr \<lparr>feature = col, psi_value = psi_val, ks_pvalue = ks_p ks e a,
               flag = flag_of cfg psi_val,
               pre_n = length (strip_nan e), post_n = length (strip_nan a)\<rparr>)"

fun feature_records ::
  "(real list \<Rightarrow> real list \<Rightarrow> error + fl) \<Rightarrow> StabilityConfig \<Rightarrow> dataframe \<Rightarrow> nat list \<Rightarrow>
     nat list \<Rightarrow> string list \<Rightarrow> error + drift_record list" where
  "feature_records ks cfg df pre post [] = Inr []"
| "feature_records ks cfg df pre post (col # rest) =
     (case feature_record ks cfg (to_numpy (column_of df col) pre)
             (to_numpy (column_of df col) post) col of
        Inl err \<Rightarrow> Inl err
      | Inr r \<Rightarrow>
          (case feature_records ks cfg df pre post rest of
             Inl err \<Rightarrow> Inl err
           | Inr rs \<Rightarrow> Inr (r # rs)))"

text \<open>
  Line 113: \<^verbatim>\<open>sort_values(["flag", "psi"], ascending=[True, False])\<close>, a stable sort by
  the flag's text ascending, then by PSI descending with NaN last.
\<close>

fun psi_rank :: "fl \<Rightarrow> nat \<times> real" where
  "psi_rank PInf = (0, 0)"
| "psi_rank (Fin x) = (1, - x)"
| "psi_rank NInf = (2, 0)"
| "psi_rank NaN = (3, 0)"

definition sort_values :: "drift_record list \<Rightarrow> drift_record list" where
  "sort_values rows = sort_key (\<lambda>r. (flag r, psi_rank (psi_value r))) rows"

text \<open>
  \<^verbatim>\<open>numeric_drift_report\<close>. \<open>to_datetime\<close> parses a column (a lenient parse, by row) and
  \<open>to_datetime1\<close> the cutoff, which raises on a text it cannot parse. \<open>Inr []\<close> is the
  empty frame \<^verbatim>\<open>pd.DataFrame()\<close>. With no numeric feature left, the frame built from the
  empty list of rows has no column \<^verbatim>\<open>flag\<close> and \<^verbatim>\<open>sort_values\<close> raises \<^verbatim>\<open>KeyError\<close>.
\<close>

definition numeric_drift_report ::
  "(real list \<Rightarrow> real list \<Rightarrow> error + fl) \<Rightarrow> (column \<Rightarrow> nat \<Rightarrow> int option) \<Rightarrow>
     (string \<Rightarrow> error + int option) \<Rightarrow> dataframe \<Rightarrow> string \<Rightarrow> string \<Rightarrow> string list option \<Rightarrow>
     StabilityConfig option \<Rightarrow> error + drift_record list" where
  "numeric_drift_report ks to_datetime to_datetime1 df time_col split_time features cfg0 =
     (let cfg = (case cfg0 of Some c \<Rightarrow> c | None \<Rightarrow> default_config)
      in if time_col \<notin> set (columns df) then Inr []
         else
           let t = to_datetime (column_of df time_col)
           in case to_datetime1 split_time of
                Inl err \<Rightarrow> Inl err
              | Inr split_ts \<Rightarrow>
                  (let (pre, post) = time_partition t split_ts (nrows df);
                       num = numeric_columns df;
                       num = (case features of
                                None \<Rightarrow> num
                              | Some fs \<Rightarrow> (if fs = [] then num else filter (\<lambda>c. c \<in> set fs) num))
                   in (case feature_records ks cfg df pre post num of
                         Inl err \<Rightarrow> Inl err
                       | Inr rows \<Rightarrow> (if rows = [] then Inl KeyError else Inr (sort_values rows)))))"

section \<open>Segment stability\<close>

text \<open>
  \<^verbatim>\<open>str(v)\<close>. The text of a number depends on its Python type (\<^verbatim>\<open>1\<close>, \<^verbatim>\<open>1.0\<close>,
  \<^verbatim>\<open>True\<close>), so it is the parameter \<open>num_str\<close>.
\<close>

fun str_of :: "(real \<Rightarrow> string) \<Rightarrow> pyval \<Rightarrow> string" where
  "str_of num_str (PStr s) = s"
| "str_of num_str (PNum x) = num_str x"
| "str_of num_str (PObj r) = r"
| "str_of num_str PNone = ''None''"
| "str_of num_str PNaN = ''nan''"

text \<open>\<^verbatim>\<open>series.astype("object")\<close>: the cells as Python objects.\<close>

fun astype_object :: "column \<Rightarrow> pyval list" where
  "astype_object (NumCol xs) = map (\<lambda>c. case c of None \<Rightarrow> PNaN | Some x \<Rightarrow> PNum x) xs"
| "astype_object (ObjCol vs) = vs"

fun isna :: "pyval \<Rightarrow> bool" where
  "isna PNone = True"
| "isna PNaN = True"
| "isna _ = False"

text \<open>
  \<^verbatim>\<open>series.value_counts()\<close>: the number of occurrences of each value that is not missing,
  most frequent first. Values with equal counts are kept in the order of their first
  occurrence.
\<close>

definition value_counts :: "pyval list \<Rightarrow> (pyval \<times> nat) list" where
  "value_counts vs =
     (let present = filter (\<lambda>v. \<not> isna v) vs;
          keys = rev (remdups (rev present))
      in sort_key (\<lambda>(k, c). - int c) (map (\<lambda>k. (k, count_list present k)) keys))"

text \<open>\<^verbatim>\<open>.head(n)\<close> is the slice \<^verbatim>\<open>[:n]\<close>: a negative \<open>n\<close> drops the last \<open>-n\<close> entries.\<close>

definition head :: "int \<Rightarrow> 'a list \<Rightarrow> 'a list" where
  "head n xs = (if n \<ge> 0 then take (nat n) xs else take (length xs - nat (- n)) xs)"

text \<open>\<^verbatim>\<open>.str.lower()\<close> and \<^verbatim>\<open>.str.strip()\<close> on the ASCII range.\<close>

definition lower_char :: "char \<Rightarrow> char" where
  "lower_char c =
     (case map_of (zip ''ABCDEFGHIJKLMNOPQRSTUVWXYZ'' ''abcdefghijklmnopqrstuvwxyz'') c of
        Some d \<Rightarrow> d
      | None \<Rightarrow> c)"

definition lower :: "string \<Rightarrow> string" where
  "lower s = map lower_char s"

definition is_space :: "char \<Rightarrow> bool" where
  "is_space c = (c \<in> set [CHR '' '', CHR 0x09, CHR 0x0A, CHR 0x0B, CHR 0x0C, CHR 0x0D,
                            CHR 0x1C, CHR 0x1D, CHR 0x1E, CHR 0x1F])"

definition strip :: "string \<Rightarrow> string" where
  "strip s = rev (dropWhile is_space (rev (dropWhile is_space s)))"

text \<open>Line 140, the binarization table.\<close>

definition mapping :: "(string \<times> real) list" where
  "mapping = [(''1'', 1), (''0'', 0), (''yes'', 1), (''no'', 0), (''true'', 1), (''false'', 0)]"

text \<open>
  Lines 143--144: the rows with a segment and a binarized target, grouped by segment; the
  mean of a group, \<open>None\<close> for a key that has no group.
\<close>

definition group_mean :: "(pyval \<times> real option) list \<Rightarrow> pyval \<Rightarrow> real option" where
  "group_mean rows k =
     (let tmp = filter (\<lambda>(s, y). \<not> isna s \<and> y \<noteq> None) rows;
          ys = concat (map (\<lambda>(s, y). case y of Some v \<Rightarrow> if s = k then [v] else [] | None \<Rightarrow> []) tmp)
      in if ys = [] then None else Some (sum_list ys / real (length ys)))"

record seg_out =
  segment :: "string list"
  count :: "nat list"
  pct :: "real list"
  target_rate :: "real option list option"

datatype seg_frame = EmptyFrame | SegFrame seg_out

text \<open>
  \<^verbatim>\<open>segment_stability\<close>. \<open>EmptyFrame\<close> is \<^verbatim>\<open>pd.DataFrame()\<close>; the field \<open>target_rate\<close>
  is \<open>None\<close> when the column is not attached, and a cell of it is \<open>None\<close> when it is NaN.
  The test \<^verbatim>\<open>if target_col and ...\<close> is false for \<^verbatim>\<open>None\<close> and for the empty name.
  \<^verbatim>\<open>y.astype(str)\<close> turns every cell into a text, a missing one into \<^verbatim>\<open>nan\<close> or
  \<^verbatim>\<open>None\<close>, so that \<^verbatim>\<open>y2.dropna()\<close> drops nothing and the distinct values of line 141
  are those of \<open>y2\<close>. Line 145 looks each label, a \<^verbatim>\<open>str\<close>, up among the group keys,
  which are the values of the segment column themselves.
\<close>

definition segment_stability ::
  "(real \<Rightarrow> string) \<Rightarrow> dataframe \<Rightarrow> string \<Rightarrow> string option \<Rightarrow> int \<Rightarrow> seg_frame" where
  "segment_stability num_str df segment_col target_col top_k =
     (if segment_col \<notin> set (columns df) then EmptyFrame
      else
        let seg = astype_object (column_of df segment_col);
            counts = head top_k (value_counts seg);
            out_segment = map (\<lambda>(k, c). str_of num_str k) counts;
            out_count = map snd counts;
            out_pct = map (\<lambda>c. real c / real (max (sum_list out_count) 1)) out_count;
            out = \<lparr>segment = out_segment, count = out_count, pct = out_pct, target_rate = None\<rparr>
        in case target_col of
             None \<Rightarrow> SegFrame out
           | Some tc \<Rightarrow>
               if tc \<noteq> [] \<and> tc \<in> set (columns df) then
                 let y = astype_object (column_of df tc);
                     y2 = map (\<lambda>v. strip (lower (str_of num_str v))) y
                 in if set y2 \<subseteq> set (map fst mapping) then
                      let ybin = map (map_of mapping) y2;
                          rate = group_mean (zip seg ybin)
                      in SegFrame (out\<lparr>target_rate := Some (map (\<lambda>l. rate (PStr l)) out_segment)\<rparr>)
                    else SegFrame out
               else SegFrame out)"

section \<open>Example inputs\<close>

text \<open>
  A parser for the examples: a numeric time column holds instants, a text column does not
  parse. \<open>example_str\<close> is \<^verbatim>\<open>str\<close> on the integers 1 and 2.
\<close>

definition example_parse :: "column \<Rightarrow> nat \<Rightarrow> int option" where
  "example_parse c i = (case c of NumCol xs \<Rightarrow> map_option floor (xs ! i) | ObjCol vs \<Rightarrow> None)"

definition example_cutoff :: "string \<Rightarrow> error + int option" where
  "example_cutoff s = (if s = ''3'' then Inr (Some 3) else Inl ValueError)"

definition example_ks :: "real list \<Rightarrow> real list \<Rightarrow> error + fl" where
  "example_ks x y = (if x = y then Inr (Fin 1) else Inl LibraryError)"

definition example_str :: "real \<Rightarrow> string" where
  "example_str x = (if x = 1 then ''1'' else if x = 2 then ''2'' else ''?'')"

text \<open>Six rows, three before the cutoff 3 and three after it; \<open>y\<close> is constant.\<close>

definition drift_frame :: dataframe where
  "drift_frame =
     \<lparr>nrows = 6,
      cols = [(''ts'', NumCol [Some 1, Some 1, Some 1, Some 5, Some 5, Some 5]),
              (''y'', NumCol [Some 7, Some 7, Some 7, Some 7, Some 7, Some 7]),
              (''x'', NumCol [Some 1, Some 2, Some 3, Some 1, Some 2, Some 3])]\<rparr>"

text \<open>The segments A, A, A, B, B, C of the specification's example, with a text target.\<close>

definition segment_frame :: dataframe where
  "segment_frame =
     \<lparr>nrows = 6,
      cols = [(''seg'', ObjCol [PStr ''A'', PStr ''A'', PStr ''A'', PStr ''B'', PStr ''B'', PStr ''C'']),
              (''y'', ObjCol [PStr '' Yes'', PStr ''no'', PStr ''TRUE '', PStr ''0'', PStr ''1'',
                               PStr ''false''])]\<rparr>"

text \<open>A sample of 21 observations, the smallest the KS gate lets through.\<close>

definition sample21 :: "real option list" where
  "sample21 = [Some 1, Some 2, Some 3, Some 4, Some 5, Some 6, Some 7, Some 8, Some 9, Some 10,
     Some 11, Some 12, Some 13, Some 14, Some 15, Some 16, Some 17, Some 18, Some 19, Some 20,
     Some 21]"

section \<open>Properties of the PSI estimator\<close>

subsection \<open>Auxiliary facts\<close>

lemma foldl_fadd_Fin: "foldl fadd (Fin s) (map Fin xs) = Fin (s + sum_list xs)"
  by (induction xs arbitrary: s) (simp_all add: add.assoc)

lemma fsum_Fin: "fsum (map Fin xs) = Fin (sum_list xs)"
  by (simp add: fsum_def foldl_fadd_Fin)

lemma psi_term_pos:
  "0 < a \<Longrightarrow> 0 < e \<Longrightarrow> fmul (a - e) (flog (fdiv a e)) = Fin ((a - e) * ln (a / e))"
  by (simp add: fdiv_def)

lemma psi_sum_pos:
  assumes "\<forall>a \<in> set a_dist. 0 < a" and "\<forall>e \<in> set e_dist. 0 < e"
  shows "psi_sum a_dist e_dist =
           Fin (sum_list (map (\<lambda>(a, e). (a - e) * ln (a / e)) (zip a_dist e_dist)))"
proof -
  have "map (\<lambda>(a, e). fmul (a - e) (flog (fdiv a e))) (zip a_dist e_dist) =
        map Fin (map (\<lambda>(a, e). (a - e) * ln (a / e)) (zip a_dist e_dist))"
  proof (simp only: map_map, rule map_cong [OF refl])
    fix p assume p: "p \<in> set (zip a_dist e_dist)"
    obtain a e where ae: "p = (a, e)" by (cases p)
    have "0 < a" using assms(1) p ae by (auto dest: set_zip_leftD)
    moreover have "0 < e" using assms(2) p ae by (auto dest: set_zip_rightD)
    ultimately show "(case p of (a, e) \<Rightarrow> fmul (a - e) (flog (fdiv a e))) =
        (Fin \<circ> (\<lambda>(a, e). (a - e) * ln (a / e))) p"
      by (simp add: ae psi_term_pos)
  qed
  then show ?thesis
    unfolding psi_sum_def by (simp only: fsum_Fin)
qed

lemma clip_bounds:
  assumes "p \<in> set (clip eps 1 xs)"
  shows "min eps 1 \<le> p \<and> p \<le> 1"
  using assms by (auto simp: clip_def)

lemma clip_pos: "0 < eps \<Longrightarrow> p \<in> set (clip eps 1 xs) \<Longrightarrow> 0 < p"
  using clip_bounds [of p eps xs] by auto

lemma psi_of_edges_finite:
  assumes "0 < eps"
  shows "\<exists>r. psi_of_edges edges expected actual eps = Fin r"
  unfolding psi_of_edges_def Let_def
  using psi_sum_pos [of "clip eps 1 (normalize (histogram actual edges))"
                        "clip eps 1 (normalize (histogram expected edges))"]
        clip_pos [OF assms]
  by blast

lemma psi_sum_self:
  assumes "\<forall>d \<in> set ds. 0 < d"
  shows "psi_sum ds ds = Fin 0"
proof -
  have "sum_list (map (\<lambda>(a, e). (a - e) * ln (a / e)) (zip ds ds)) = 0"
    by (induction ds) simp_all
  with psi_sum_pos [OF assms assms] show ?thesis by simp
qed

lemma psi_of_edges_self:
  assumes "0 < eps"
  shows "psi_of_edges edges x x eps = Fin 0"
  unfolding psi_of_edges_def Let_def
  using psi_sum_self [of "clip eps 1 (normalize (histogram x edges))"] clip_pos [OF assms]
  by blast

lemma psi_unfold:
  assumes "strip_nan expected \<noteq> []" and "strip_nan actual \<noteq> []"
    and "psi_edges (strip_nan expected) bins = Inr edges"
  shows "psi expected actual bins eps =
           (if length edges < 3 then Inr NaN
            else Inr (psi_of_edges edges (strip_nan expected) (strip_nan actual) eps))"
  using assms by (simp add: psi_def Let_def)

lemma psi_edges_total:
  assumes "- 1 \<le> bins"
  shows "\<exists>edges. psi_edges a bins = Inr edges"
  using assms by (simp add: psi_edges_def linspace01_def)

lemma linspace01_range:
  assumes "linspace01 num = Inr qs" and "q \<in> set qs"
  shows "0 \<le> q \<and> q \<le> 1"
  using assms by (auto simp: linspace01_def split: if_splits)

lemma quantile1_const:
  assumes "a \<noteq> []" and "set a \<subseteq> {c}" and "0 \<le> q" and "q \<le> 1"
  shows "quantile1 a q = c"
proof -
  let ?s = "sort a"
  let ?n = "length ?s"
  let ?j = "nat \<lfloor>q * real (?n - 1)\<rfloor>"
  have n: "0 < ?n" using assms(1) by simp
  have "q * real (?n - 1) \<le> real (?n - 1)"
    using mult_right_mono [of q 1 "real (?n - 1)"] assms(4) by simp
  then have "\<lfloor>q * real (?n - 1)\<rfloor> \<le> int (?n - 1)"
    by (simp add: floor_le_iff)
  then have j: "?j < ?n" using n by linarith
  have "min (?j + 1) (?n - 1) \<le> ?n - 1" by (rule min.cobounded2)
  then have m: "min (?j + 1) (?n - 1) < ?n" using n by linarith
  have mem: "\<And>i. i < ?n \<Longrightarrow> ?s ! i = c"
  proof -
    fix i assume "i < ?n"
    then have "?s ! i \<in> set ?s" by (rule nth_mem)
    then show "?s ! i = c" using assms(2) by auto
  qed
  show ?thesis
    unfolding quantile1_def Let_def using mem [OF j] mem [OF m] by simp
qed

lemma unique_length: "length (unique xs) = card (set xs)"
  by (simp add: unique_def length_remdups_card_conv)

lemma psi_edges_const:
  assumes "a \<noteq> []" and "set a \<subseteq> {c}" and "psi_edges a bins = Inr edges"
  shows "length edges < 3"
proof -
  from assms(3) obtain qs where qs: "linspace01 (bins + 1) = Inr qs"
    and edges: "edges = unique (quantile a qs)"
    by (auto simp: psi_edges_def split: sum.splits)
  have "set (quantile a qs) \<subseteq> {c}"
    using quantile1_const [OF assms(1,2)] linspace01_range [OF qs]
    by (auto simp: quantile_def)
  then have "card (set (quantile a qs)) \<le> card {c}"
    by (intro card_mono) simp_all
  then show ?thesis by (simp add: edges unique_length)
qed

text \<open>The guarded divisor of lines 45--46 is never zero: the float division is the exact one.\<close>

lemma normalize_fdiv:
  "fdiv (real c) (real (max (sum_list counts) 1)) = Fin (real c / real (max (sum_list counts) 1))"
  by (simp add: fdiv_def)

lemma psi_nan_iff:
  assumes "0 < eps" and "- 1 \<le> bins"
  shows "psi expected actual bins eps = Inr NaN \<longleftrightarrow>
           strip_nan expected = [] \<or> strip_nan actual = [] \<or>
           (\<exists>edges. psi_edges (strip_nan expected) bins = Inr edges \<and> length edges < 3)"
proof (cases "strip_nan expected = [] \<or> strip_nan actual = []")
  case True
  then show ?thesis by (auto simp: psi_def Let_def)
next
  case False
  from psi_edges_total [OF assms(2)] obtain edges
    where edges: "psi_edges (strip_nan expected) bins = Inr edges" by blast
  from psi_of_edges_finite [OF assms(1)] obtain r
    where "psi_of_edges edges (strip_nan expected) (strip_nan actual) eps = Fin r" by blast
  with False edges show ?thesis
    by (simp add: psi_unfold [where edges = edges])
qed

lemma psi_defined_value:
  assumes "0 < eps" and "strip_nan expected \<noteq> []" and "strip_nan actual \<noteq> []"
    and "psi_edges (strip_nan expected) bins = Inr edges" and "3 \<le> length edges"
  shows "\<exists>r. psi expected actual bins eps = Inr (Fin r)"
  using psi_of_edges_finite [OF assms(1), of edges "strip_nan expected" "strip_nan actual"] assms
  by (auto simp: psi_unfold [where edges = edges])

text \<open>The definitions that evaluate the estimator on a concrete input.\<close>

lemmas eval_psi = psi_def psi_edges_def linspace01_def unique_def quantile_def quantile1_def
  psi_of_edges_def histogram_def in_bin_def normalize_def clip_def psi_sum_def fsum_def fdiv_def
  Let_def upt_rec

subsection \<open>When PSI is undefined\<close>

text \<open>
  Claim C2. For a positive epsilon and a bin count the library accepts (\<open>bins \<ge> -1\<close>; the
  configuration asks for \<open>bins \<ge> 2\<close>), the estimator returns NaN exactly when one of the
  arrays is empty once its NaN cells are stripped, or the deduplicated quantile edges of the
  reference array are fewer than 3; in every other case it returns a finite number; and a
  reference array with a single distinct value always gives NaN.
\<close>

theorem psi_undefined_iff:
  assumes "0 < eps" and "- 1 \<le> bins"
  shows "(psi expected actual bins eps = Inr NaN \<longleftrightarrow>
            strip_nan expected = [] \<or> strip_nan actual = [] \<or>
            (\<exists>edges. psi_edges (strip_nan expected) bins = Inr edges \<and> length edges < 3))
       \<and> (psi expected actual bins eps \<noteq> Inr NaN \<longrightarrow>
            (\<exists>r. psi expected actual bins eps = Inr (Fin r)))
       \<and> ((\<exists>c. set (strip_nan expected) \<subseteq> {c}) \<longrightarrow> psi expected actual bins eps = Inr NaN)"
proof (intro conjI impI)
  show iff: "psi expected actual bins eps = Inr NaN \<longleftrightarrow>
            strip_nan expected = [] \<or> strip_nan actual = [] \<or>
            (\<exists>edges. psi_edges (strip_nan expected) bins = Inr edges \<and> length edges < 3)"
    by (rule psi_nan_iff [OF assms])
  from psi_edges_total [OF assms(2)] obtain edges
    where edges: "psi_edges (strip_nan expected) bins = Inr edges" by blast
  {
    assume "psi expected actual bins eps \<noteq> Inr NaN"
    with iff edges have "strip_nan expected \<noteq> []" "strip_nan actual \<noteq> []" "3 \<le> length edges"
      by auto
    then show "\<exists>r. psi expected actual bins eps = Inr (Fin r)"
      using psi_defined_value [OF assms(1) _ _ edges] by blast
  }
  {
    assume "\<exists>c. set (strip_nan expected) \<subseteq> {c}"
    then obtain c where c: "set (strip_nan expected) \<subseteq> {c}" by blast
    show "psi expected actual bins eps = Inr NaN"
    proof (cases "strip_nan expected = []")
      case True
      then show ?thesis using iff by simp
    next
      case False
      from psi_edges_const [OF False c edges] edges show ?thesis using iff by blast
    qed
  }
qed

text \<open>A constant reference array, and an empty current array, at the default configuration.\<close>

theorem psi_undefined_iff_witness:
  "(0::real) < 1 / 1000000 \<and> (- 1::int) \<le> 10 \<and>
   psi [Some 5, None, Some 5] [Some 1] 10 (1 / 1000000) = Inr NaN \<and>
   psi [Some 7] [None] 10 (1 / 1000000) = Inr NaN"
  using psi_undefined_iff [of "1 / 1000000" 10 "[Some 5, None, Some 5]" "[Some 1]"]
        psi_undefined_iff [of "1 / 1000000" 10 "[Some 7]" "[None]"]
  by simp

subsection \<open>A defined PSI is finite\<close>

text \<open>
  Claim C10. With a positive epsilon, whenever both stripped arrays are non-empty and there
  are at least 3 bin edges, the estimator returns a finite real number: the divisor
  \<open>max (sum counts) 1\<close> makes each normalizing division an exact one, and every clipped
  probability is positive and lies between \<open>min eps 1\<close> and 1, for any array that is
  histogrammed, so also for one whose values all fall outside the edges.
\<close>

theorem psi_defined_is_finite:
  assumes "0 < eps" and "strip_nan expected \<noteq> []" and "strip_nan actual \<noteq> []"
    and "psi_edges (strip_nan expected) bins = Inr edges" and "3 \<le> length edges"
  shows "(\<exists>r. psi expected actual bins eps = Inr (Fin r))
       \<and> (\<forall>x c. fdiv (real c) (real (max (sum_list (histogram x edges)) 1)) =
                   Fin (real c / real (max (sum_list (histogram x edges)) 1)))
       \<and> (\<forall>x. \<forall>p \<in> set (clip eps 1 (normalize (histogram x edges))). 0 < p \<and> min eps 1 \<le> p \<and> p \<le> 1)"
proof (intro conjI allI ballI)
  show "\<exists>r. psi expected actual bins eps = Inr (Fin r)"
    by (rule psi_defined_value [OF assms])
next
  fix x :: "real list" and c :: nat
  show "fdiv (real c) (real (max (sum_list (histogram x edges)) 1)) =
          Fin (real c / real (max (sum_list (histogram x edges)) 1))"
    by (rule normalize_fdiv)
next
  fix x p assume p: "p \<in> set (clip eps 1 (normalize (histogram x edges)))"
  show "0 < p" by (rule clip_pos [OF assms(1) p])
  show "min eps 1 \<le> p" "p \<le> 1" using clip_bounds [OF p] by simp_all
qed

text \<open>The current array lies outside the reference range: its histogram is all zeros.\<close>

theorem psi_defined_is_finite_witness:
  "histogram [10] [1, 2, 3] = [0, 0] \<and>
   (\<exists>r. psi [Some 1, Some 2, Some 3] [Some 10] 2 (1 / 1000000) = Inr (Fin r))"
proof -
  have e: "psi_edges (strip_nan [Some 1, Some 2, Some 3]) 2 = Inr [1, 2, 3]"
    by (simp add: eval_psi)
  have h: "histogram [10] [1, 2, 3] = [0, 0]"
    by (simp add: eval_psi)
  from psi_defined_is_finite [of "1 / 1000000" "[Some 1, Some 2, Some 3]" "[Some 10]" 2, OF _ _ _ e]
  have "\<exists>r. psi [Some 1, Some 2, Some 3] [Some 10] 2 (1 / 1000000) = Inr (Fin r)"
    by simp
  with h show ?thesis by simp
qed

subsection \<open>PSI of an array against itself\<close>

text \<open>
  Claim C3 as stated fails: an array with the three distinct values 0, 1 and 2 whose ten
  inner deciles all equal 2 has only the two edges 0 and 2, and the estimator returns NaN
  at the default configuration.
\<close>

theorem psi_self_counterexample:
  "length (remdups (strip_nan [Some 0, Some 1, Some 2, Some 2, Some 2, Some 2, Some 2, Some 2,
      Some 2, Some 2, Some 2, Some 2, Some 2, Some 2, Some 2, Some 2, Some 2, Some 2, Some 2,
      Some 2, Some 2, Some 2])) = 3 \<and>
   psi [Some 0, Some 1, Some 2, Some 2, Some 2, Some 2, Some 2, Some 2,
      Some 2, Some 2, Some 2, Some 2, Some 2, Some 2, Some 2, Some 2, Some 2, Some 2, Some 2,
      Some 2, Some 2, Some 2]
     [Some 0, Some 1, Some 2, Some 2, Some 2, Some 2, Some 2, Some 2,
      Some 2, Some 2, Some 2, Some 2, Some 2, Some 2, Some 2, Some 2, Some 2, Some 2, Some 2,
      Some 2, Some 2, Some 2] 10 (1 / 1000000) = Inr NaN"
  by (simp add: psi_def psi_edges_def linspace01_def unique_def quantile_def quantile1_def
      Let_def upt_rec)

text \<open>
  Claim C3, amended. For a positive epsilon and every array whose deduplicated quantile
  edges number at least 3 (the array is not empty once stripped), PSI of the array against
  itself is exactly 0.
\<close>

theorem psi_self_zero:
  assumes "0 < eps" and "strip_nan x \<noteq> []"
    and "psi_edges (strip_nan x) bins = Inr edges" and "3 \<le> length edges"
  shows "psi x x bins eps = Inr (Fin 0)"
  using assms by (simp add: psi_unfold [where edges = edges] psi_of_edges_self)

text \<open>An array with one NaN cell and three distinct values, at the default configuration.\<close>

theorem psi_self_zero_witness:
  "psi [Some 3, None, Some 1, Some 2] [Some 3, None, Some 1, Some 2] 10 (1 / 1000000) = Inr (Fin 0)"
proof -
  have e: "psi_edges (strip_nan [Some 3, None, Some 1, Some 2]) 10 =
      Inr [1, 6 / 5, 7 / 5, 8 / 5, 9 / 5, 2, 11 / 5, 12 / 5, 13 / 5, 14 / 5, 3]"
    by (simp add: psi_edges_def linspace01_def unique_def quantile_def quantile1_def
      Let_def upt_rec)
  show ?thesis
    by (rule psi_self_zero [OF _ _ e]) simp_all
qed

section \<open>Properties of the drift report\<close>

subsection \<open>The record of one feature\<close>

lemma feature_record_total:
  assumes "- 1 \<le> psi_bins cfg"
  shows "\<exists>v. psi e a (psi_bins cfg) (psi_epsilon cfg) = Inr v \<and>
     feature_record ks cfg e a col =
       Inr \<lparr>feature = col, psi_value = v, ks_pvalue = ks_p ks e a, flag = flag_of cfg v,
            pre_n = length (strip_nan e), post_n = length (strip_nan a)\<rparr>"
proof -
  from psi_edges_total [OF assms] obtain edges
    where "psi_edges (strip_nan e) (psi_bins cfg) = Inr edges" by blast
  then have "\<exists>v. psi e a (psi_bins cfg) (psi_epsilon cfg) = Inr v"
    by (simp add: psi_def Let_def)
  then show ?thesis by (auto simp: feature_record_def)
qed

lemma feature_record_fields:
  assumes "feature_record ks cfg e a col = Inr r"
  shows "flag r = flag_of cfg (psi_value r)" and "ks_pvalue r = ks_p ks e a"
    and "psi e a (psi_bins cfg) (psi_epsilon cfg) = Inr (psi_value r)"
  using assms by (auto simp: feature_record_def split: sum.splits)

subsection \<open>The drift flagger\<close>

text \<open>
  Claim C1. With \<open>warn \<le> alert\<close>, a PSI value that is not NaN is flagged "alert" exactly
  when it is at least the alert threshold, "warn" exactly when it is at least the warn
  threshold and below the alert threshold, and "ok" exactly when it is below the warn
  threshold; a value equal to a threshold takes that threshold's flag. A NaN is flagged
  "ok". The flag of every feature record is the flag of its PSI value.
\<close>

theorem flag_thresholds:
  assumes "psi_warn cfg \<le> psi_alert cfg"
  shows "(\<not> isnan p \<longrightarrow>
            (flag_of cfg p = ''alert'' \<longleftrightarrow> fge p (psi_alert cfg)) \<and>
            (flag_of cfg p = ''warn'' \<longleftrightarrow> fge p (psi_warn cfg) \<and> \<not> fge p (psi_alert cfg)) \<and>
            (flag_of cfg p = ''ok'' \<longleftrightarrow> \<not> fge p (psi_warn cfg)))
       \<and> (\<forall>x. flag_of cfg (Fin x) =
                 (if psi_alert cfg \<le> x then ''alert''
                  else if psi_warn cfg \<le> x then ''warn'' else ''ok''))
       \<and> flag_of cfg NaN = ''ok''
       \<and> (\<forall>ks e a col r. feature_record ks cfg e a col = Inr r \<longrightarrow>
             flag r = flag_of cfg (psi_value r))"
proof (intro conjI impI allI)
  show "flag_of cfg p = ''alert'' \<longleftrightarrow> fge p (psi_alert cfg)" if "\<not> isnan p"
    using that by (cases p) (simp_all add: flag_of_def)
  show "flag_of cfg p = ''warn'' \<longleftrightarrow> fge p (psi_warn cfg) \<and> \<not> fge p (psi_alert cfg)"
    if "\<not> isnan p"
    using that by (cases p) (simp_all add: flag_of_def)
  show "flag_of cfg p = ''ok'' \<longleftrightarrow> \<not> fge p (psi_warn cfg)" if "\<not> isnan p"
    using that assms by (cases p) (auto simp: flag_of_def)
  show "flag_of cfg (Fin x) =
          (if psi_alert cfg \<le> x then ''alert'' else if psi_warn cfg \<le> x then ''warn'' else ''ok'')"
    for x
    by (simp add: flag_of_def)
  show "flag_of cfg NaN = ''ok''"
    by (simp add: flag_of_def)
  show "flag r = flag_of cfg (psi_value r)" if "feature_record ks cfg e a col = Inr r"
    for ks e a col r
    using that by (rule feature_record_fields)
qed

text \<open>The default thresholds, at both boundaries and just below the lower one.\<close>

theorem flag_thresholds_witness:
  "psi_warn default_config \<le> psi_alert default_config \<and>
   flag_of default_config (Fin (1 / 4)) = ''alert'' \<and>
   flag_of default_config (Fin (1 / 10)) = ''warn'' \<and>
   flag_of default_config (Fin (99 / 1000)) = ''ok'' \<and>
   flag_of default_config NaN = ''ok''"
  using flag_thresholds [of default_config "Fin (1 / 4)"]
        flag_thresholds [of default_config "Fin (1 / 10)"]
        flag_thresholds [of default_config "Fin (99 / 1000)"]
  by (simp add: default_config_def)

subsection \<open>The KS adapter\<close>

text \<open>
  Claim C4. Let the library test return p-values in [0,1] when it returns. For every feature
  the record is built (with a bin count the library accepts) and its KS p-value is NaN when
  a stripped sample has 20 or fewer observations, NaN when the test raises (the error does
  not reach the caller), and otherwise the p-value of the test, a number in [0,1].
\<close>

theorem ks_pvalue_gate:
  assumes lib: "\<forall>x y p. ks x y = Inr p \<longrightarrow> (\<exists>r. p = Fin r \<and> 0 \<le> r \<and> r \<le> 1)"
    and bins: "- 1 \<le> psi_bins cfg"
  shows "\<exists>row. feature_record ks cfg e a col = Inr row \<and>
           (if 20 < length (strip_nan e) \<and> 20 < length (strip_nan a)
            then (case ks (strip_nan e) (strip_nan a) of
                    Inl err \<Rightarrow> ks_pvalue row = NaN
                  | Inr p \<Rightarrow> ks_pvalue row = p \<and> (\<exists>r. p = Fin r \<and> 0 \<le> r \<and> r \<le> 1))
            else ks_pvalue row = NaN)"
proof -
  from feature_record_total [OF bins, of e a ks col] obtain row
    where row: "feature_record ks cfg e a col = Inr row" by blast
  then have "ks_pvalue row = ks_p ks e a" by (rule feature_record_fields)
  with row lib show ?thesis
    by (auto simp: ks_p_def Let_def split: sum.splits)
qed

text \<open>
  Two samples of 21 observations, a pair on which the test raises, and a sample of 20: the
  example test answers 1 on equal samples and raises otherwise.
\<close>

theorem ks_pvalue_gate_witness:
  "(\<exists>row. feature_record example_ks default_config sample21 sample21 ''f'' = Inr row \<and>
          ks_pvalue row = Fin 1) \<and>
   (\<exists>row. feature_record example_ks default_config sample21 (Some 0 # sample21) ''f'' = Inr row \<and>
          ks_pvalue row = NaN) \<and>
   (\<exists>row. feature_record example_ks default_config sample21 (tl sample21) ''f'' = Inr row \<and>
          ks_pvalue row = NaN)"
proof -
  have lib: "\<forall>x y p. example_ks x y = Inr p \<longrightarrow> (\<exists>r. p = Fin r \<and> 0 \<le> r \<and> r \<le> 1)"
    by (simp add: example_ks_def)
  have bins: "- 1 \<le> psi_bins default_config"
    by (simp add: default_config_def)
  have l: "length (strip_nan sample21) = 21" "length (strip_nan (Some 0 # sample21)) = 22"
    "length (strip_nan (tl sample21)) = 20"
    by (simp_all add: sample21_def)
  have k: "example_ks (strip_nan sample21) (strip_nan sample21) = Inr (Fin 1)"
    "example_ks (strip_nan sample21) (strip_nan (Some 0 # sample21)) = Inl LibraryError"
    by (simp_all add: example_ks_def sample21_def)
  from ks_pvalue_gate [OF lib bins, of sample21 sample21 "''f''"]
  have 1: "\<exists>row. feature_record example_ks default_config sample21 sample21 ''f'' = Inr row \<and>
          ks_pvalue row = Fin 1"
    by (simp add: l k)
  from ks_pvalue_gate [OF lib bins, of sample21 "Some 0 # sample21" "''f''"]
  have 2: "\<exists>row. feature_record example_ks default_config sample21 (Some 0 # sample21) ''f'' = Inr row \<and>
          ks_pvalue row = NaN"
    by (simp only: l k) simp
  from ks_pvalue_gate [OF lib bins, of sample21 "tl sample21" "''f''"]
  have 3: "\<exists>row. feature_record example_ks default_config sample21 (tl sample21) ''f'' = Inr row \<and>
          ks_pvalue row = NaN"
    by (simp only: l) simp
  from 1 2 3 show ?thesis by blast
qed

subsection \<open>The time partition\<close>

lemma ts_lt_iff: "ts_lt x y \<longleftrightarrow> (\<exists>a b. x = Some a \<and> y = Some b \<and> a < b)"
  by (cases x; cases y) simp_all

lemma ts_ge_iff: "ts_ge x y \<longleftrightarrow> (\<exists>a b. x = Some a \<and> y = Some b \<and> b \<le> a)"
  by (cases x; cases y) simp_all

text \<open>
  Claim C7. A row is in the reference subset exactly when its time stamp parsed and is
  strictly before the cutoff, in the current subset exactly when it parsed and is at or
  after the cutoff; a row whose time stamp did not parse is in neither. The two subsets are
  disjoint and contain only rows of the data set.
\<close>

theorem time_partition_sound:
  assumes "time_partition t split_ts n = (pre, post)"
  shows "(\<forall>i. (i \<in> set pre \<longleftrightarrow> i < n \<and> (\<exists>a b. t i = Some a \<and> split_ts = Some b \<and> a < b)) \<and>
              (i \<in> set post \<longleftrightarrow> i < n \<and> (\<exists>a b. t i = Some a \<and> split_ts = Some b \<and> b \<le> a)) \<and>
              (t i = None \<longrightarrow> i \<notin> set pre \<and> i \<notin> set post))
       \<and> set pre \<inter> set post = {}
       \<and> set pre \<union> set post \<subseteq> {0 ..< n}"
proof -
  have pre: "pre = filter (\<lambda>i. ts_lt (t i) split_ts) [0 ..< n]"
    and post: "post = filter (\<lambda>i. ts_ge (t i) split_ts) [0 ..< n]"
    using assms by (simp_all add: time_partition_def Let_def)
  have m1: "i \<in> set pre \<longleftrightarrow> i < n \<and> (\<exists>a b. t i = Some a \<and> split_ts = Some b \<and> a < b)" for i
    by (auto simp: pre ts_lt_iff)
  have m2: "i \<in> set post \<longleftrightarrow> i < n \<and> (\<exists>a b. t i = Some a \<and> split_ts = Some b \<and> b \<le> a)" for i
    by (auto simp: post ts_ge_iff)
  have "set pre \<inter> set post = {}"
    using m1 m2 by fastforce
  moreover have "set pre \<union> set post \<subseteq> {0 ..< n}"
    using m1 m2 by auto
  moreover have "t i = None \<longrightarrow> i \<notin> set pre \<and> i \<notin> set post" for i
    using m1 m2 by simp
  ultimately show ?thesis using m1 m2 by blast
qed

text \<open>Four rows, the second unparsable, the last exactly at the cutoff.\<close>

theorem time_partition_sound_witness:
  "time_partition (\<lambda>i. [Some 1, None, Some 5, Some 3] ! i) (Some 3) 4 = ([0], [2, 3]) \<and>
   set [0::nat] \<inter> set [2, 3] = {} \<and> set [0::nat] \<union> set [2, 3] \<subseteq> {0 ..< 4} \<and> 1 \<notin> set [0::nat] \<and>
   1 \<notin> set [2::nat, 3]"
proof -
  have p: "time_partition (\<lambda>i. [Some 1, None, Some 5, Some 3] ! i) (Some 3) 4 = ([0], [2, 3])"
    by (simp add: time_partition_def upt_rec)
  from time_partition_sound [OF p] show ?thesis using p by simp
qed

subsection \<open>A missing column\<close>

text \<open>
  Claim C9. When the time column is not a column of the data set, the drift report is the
  empty frame, and no error; when the segment column is not a column of the data set, the
  segment report is the empty frame.
\<close>

theorem missing_column_empty:
  "(time_col \<notin> set (columns df) \<longrightarrow>
      numeric_drift_report ks to_datetime to_datetime1 df time_col split_time features cfg = Inr [])
   \<and> (segment_col \<notin> set (columns df) \<longrightarrow>
      segment_stability num_str df segment_col target_col top_k = EmptyFrame)"
  by (simp add: numeric_drift_report_def segment_stability_def Let_def)

text \<open>A frame with the single column \<open>x\<close>; the cutoff and the test would both raise.\<close>

theorem missing_column_empty_witness:
  "''ts'' \<notin> set (columns \<lparr>nrows = 1, cols = [(''x'', NumCol [Some 1])]\<rparr>) \<and>
   numeric_drift_report example_ks example_parse example_cutoff
     \<lparr>nrows = 1, cols = [(''x'', NumCol [Some 1])]\<rparr> ''ts'' ''no date'' None None = Inr [] \<and>
   ''seg'' \<notin> set (columns \<lparr>nrows = 1, cols = [(''x'', NumCol [Some 1])]\<rparr>) \<and>
   segment_stability example_str \<lparr>nrows = 1, cols = [(''x'', NumCol [Some 1])]\<rparr>
     ''seg'' (Some ''x'') 15 = EmptyFrame"
  using missing_column_empty [of "''ts''" "\<lparr>nrows = 1, cols = [(''x'', NumCol [Some 1])]\<rparr>"
      example_ks example_parse example_cutoff "''no date''" None None
      "''seg''" example_str "Some ''x''" 15]
  by (simp add: columns_def)

subsection \<open>The order of the report\<close>

lemma str_order: "''alert'' < ''ok'' \<and> ''ok'' < ''warn''"
  by simp

lemma psi_rank_le:
  assumes "psi_rank p \<le> psi_rank q"
  shows "(\<forall>x y. p = Fin x \<and> q = Fin y \<longrightarrow> y \<le> x) \<and> (isnan p \<longrightarrow> isnan q)"
  using assms by (cases p; cases q) (simp_all add: less_eq_prod_def)

lemma sort_values_sorted:
  assumes "i < j" and "j < length (sort_values rows)"
  shows "flag (sort_values rows ! i) \<le> flag (sort_values rows ! j)"
    and "flag (sort_values rows ! i) = flag (sort_values rows ! j) \<Longrightarrow>
         psi_rank (psi_value (sort_values rows ! i)) \<le> psi_rank (psi_value (sort_values rows ! j))"
proof -
  let ?key = "\<lambda>r. (flag r, psi_rank (psi_value r))"
  let ?out = "sort_values rows"
  have "sorted (map ?key ?out)"
    unfolding sort_values_def by (rule sorted_sort_key)
  then have "map ?key ?out ! i \<le> map ?key ?out ! j"
    using assms by (simp add: sorted_iff_nth_mono del: nth_map)
  then have le: "?key (?out ! i) \<le> ?key (?out ! j)"
    using assms by simp
  then show "flag (?out ! i) \<le> flag (?out ! j)"
    by (auto simp: less_eq_prod_def)
  assume "flag (?out ! i) = flag (?out ! j)"
  with le show "psi_rank (psi_value (?out ! i)) \<le> psi_rank (psi_value (?out ! j))"
    by (auto simp: less_eq_prod_def)
qed

lemma report_is_sorted:
  assumes "numeric_drift_report ks to_datetime to_datetime1 df time_col split_time features cfg = Inr out"
  shows "out = [] \<or> (\<exists>rows. out = sort_values rows)"
  using assms
  by (auto simp: numeric_drift_report_def Let_def split: if_splits sum.splits prod.splits)

text \<open>
  Claim C8. In every report that is returned, a record never comes after one with a greater
  flag in the lexical order of the labels, where "alert" is before "ok" and "ok" before
  "warn"; and of two records with the same flag the earlier has the greater or equal PSI
  value, records whose PSI is NaN coming last.
\<close>

theorem report_order:
  assumes "numeric_drift_report ks to_datetime to_datetime1 df time_col split_time features cfg = Inr out"
    and "i < j" and "j < length out"
  shows "flag (out ! i) \<le> flag (out ! j)
       \<and> (flag (out ! i) = flag (out ! j) \<longrightarrow>
            (\<forall>x y. psi_value (out ! i) = Fin x \<and> psi_value (out ! j) = Fin y \<longrightarrow> y \<le> x) \<and>
            (isnan (psi_value (out ! i)) \<longrightarrow> isnan (psi_value (out ! j))))
       \<and> ''alert'' < ''ok'' \<and> ''ok'' < ''warn''"
proof -
  from report_is_sorted [OF assms(1)] assms(3) obtain rows where out: "out = sort_values rows"
    by auto
  have "flag (out ! i) \<le> flag (out ! j)"
    using sort_values_sorted(1) [of i j rows] assms(2,3) by (simp add: out)
  moreover have "psi_rank (psi_value (out ! i)) \<le> psi_rank (psi_value (out ! j))"
    if "flag (out ! i) = flag (out ! j)"
    using sort_values_sorted(2) [of i j rows] assms(2,3) that by (simp add: out)
  ultimately show ?thesis
    using psi_rank_le [of "psi_value (out ! i)" "psi_value (out ! j)"] str_order by blast
qed

text \<open>
  The report of \<open>drift_frame\<close> at the default configuration: the feature \<open>x\<close> with PSI 0
  is moved before the feature \<open>y\<close>, whose constant reference sample gives NaN.
\<close>

theorem report_order_witness:
  "numeric_drift_report example_ks example_parse example_cutoff drift_frame ''ts'' ''3''
     (Some [''y'', ''x'']) None =
   Inr [\<lparr>feature = ''x'', psi_value = Fin 0, ks_pvalue = NaN, flag = ''ok'', pre_n = 3, post_n = 3\<rparr>,
        \<lparr>feature = ''y'', psi_value = NaN, ks_pvalue = NaN, flag = ''ok'', pre_n = 3, post_n = 3\<rparr>] \<and>
   ''ok'' \<le> ''ok'' \<and> ''alert'' < ''ok'' \<and> ''ok'' < ''warn''"
proof -
  have r: "numeric_drift_report example_ks example_parse example_cutoff drift_frame ''ts'' ''3''
     (Some [''y'', ''x'']) None =
   Inr [\<lparr>feature = ''x'', psi_value = Fin 0, ks_pvalue = NaN, flag = ''ok'', pre_n = 3, post_n = 3\<rparr>,
        \<lparr>feature = ''y'', psi_value = NaN, ks_pvalue = NaN, flag = ''ok'', pre_n = 3, post_n = 3\<rparr>]"
    by (simp add: numeric_drift_report_def columns_def column_of_def time_partition_def
      numeric_columns_def default_config_def feature_record_def ks_p_def flag_of_def
      sort_values_def eval_psi less_eq_prod_def drift_frame_def example_parse_def
      example_cutoff_def)
  from report_order [OF r, of 0 1] show ?thesis using r by simp
qed

section \<open>Properties of the segment report\<close>

subsection \<open>Frequency counts and shares\<close>

lemma count_list_filter:
  "count_list (filter P xs) k = (if P k then count_list xs k else 0)"
  by (induction xs) auto

lemma value_counts_set:
  "set (value_counts vs) = (\<lambda>k. (k, count_list vs k)) ` {v \<in> set vs. \<not> isna v}"
  by (auto simp: value_counts_def Let_def count_list_filter)

lemma value_counts_keys:
  "fst ` set (value_counts vs) = {v \<in> set vs. \<not> isna v}"
  by (force simp: value_counts_set)

lemma value_counts_distinct: "distinct (map fst (value_counts vs))"
proof -
  let ?present = "filter (\<lambda>v. \<not> isna v) vs"
  let ?keys = "rev (remdups (rev ?present))"
  let ?g = "\<lambda>k. (k, count_list ?present k)"
  have "distinct (map ?g ?keys)"
    by (simp add: distinct_map inj_on_def)
  then have d: "distinct (value_counts vs)"
    by (simp add: value_counts_def Let_def)
  have "inj_on fst (set (value_counts vs))"
    by (auto simp: value_counts_set inj_on_def)
  with d show ?thesis by (simp add: distinct_map)
qed

lemma value_counts_length: "length (value_counts vs) = card {v \<in> set vs. \<not> isna v}"
proof -
  have "length (value_counts vs) = length (map fst (value_counts vs))" by simp
  also have "\<dots> = card (set (map fst (value_counts vs)))"
    by (rule distinct_card [symmetric]) (rule value_counts_distinct)
  also have "\<dots> = card {v \<in> set vs. \<not> isna v}"
    by (simp add: value_counts_keys)
  finally show ?thesis .
qed

lemma value_counts_positive:
  assumes "(k, c) \<in> set (value_counts vs)"
  shows "c = count_list vs k" and "0 < c"
proof -
  from assms have k: "k \<in> set vs" and c: "c = count_list vs k"
    by (auto simp: value_counts_set)
  show "c = count_list vs k" by (rule c)
  from k have "count_list vs k \<noteq> 0" by (simp add: count_list_0_iff)
  then show "0 < c" by (simp add: c)
qed

lemma value_counts_descending: "sorted_wrt (\<ge>) (map snd (value_counts vs))"
proof -
  let ?f = "\<lambda>(k, c). - int c" 
  have "sorted (map ?f (value_counts vs))"
    unfolding value_counts_def Let_def by (rule sorted_sort_key)
  then have "sorted_wrt (\<lambda>x y. ?f x \<le> ?f y) (value_counts vs)"
    by (simp add: sorted_map)
  then have "sorted_wrt (\<lambda>x y. snd x \<ge> snd y) (value_counts vs)"
    by (rule sorted_wrt_mono_rel [rotated]) auto
  then show ?thesis by (simp add: sorted_wrt_map)
qed

lemma head_subset: "set (head n xs) \<subseteq> set xs"
  by (auto simp: head_def dest: in_set_takeD)

lemma head_all: "int (length xs) \<le> n \<Longrightarrow> head n xs = xs"
  by (simp add: head_def)

lemma sum_list_divide: "sum_list (map (\<lambda>c. real c / d) cs) = real (sum_list cs) / d"
  by (induction cs) (simp_all add: add_divide_distrib)

lemma positive_sum:
  assumes "cs \<noteq> []" and "\<forall>c \<in> set cs. 0 < (c::nat)"
  shows "1 \<le> sum_list cs"
  using assms by (cases cs) auto

lemma shares_reported_total:
  assumes "\<forall>c \<in> set cs. 0 < (c::nat)"
  shows "map (\<lambda>c. real c / real (max (sum_list cs) 1)) cs =
         map (\<lambda>c. real c / real (sum_list cs)) cs"
proof (cases "cs = []")
  case True
  then show ?thesis by simp
next
  case False
  from positive_sum [OF False assms] have "max (sum_list cs) 1 = sum_list cs" by simp
  then show ?thesis by simp
qed

lemma shares_sum_one:
  assumes "cs \<noteq> []" and "\<forall>c \<in> set cs. 0 < (c::nat)"
  shows "sum_list (map (\<lambda>c. real c / real (max (sum_list cs) 1)) cs) = 1"
proof -
  define n where "n = sum_list cs"
  from positive_sum [OF assms] have n: "1 \<le> n" by (simp add: n_def)
  have "sum_list (map (\<lambda>c. real c / real (max n 1)) cs) = real n / real (max n 1)"
    unfolding n_def by (rule sum_list_divide)
  also have "\<dots> = 1" using n by simp
  finally show ?thesis by (simp add: n_def)
qed

lemma segment_stability_fields:
  assumes "segment_col \<in> set (columns df)"
  shows "\<exists>out. segment_stability num_str df segment_col target_col top_k = SegFrame out \<and>
     segment out = map (\<lambda>(k, c). str_of num_str k)
                     (head top_k (value_counts (astype_object (column_of df segment_col)))) \<and>
     count out = map snd (head top_k (value_counts (astype_object (column_of df segment_col)))) \<and>
     pct out = map (\<lambda>c. real c / real (max (sum_list (count out)) 1)) (count out)"
  using assms
  by (auto simp: segment_stability_def Let_def split: option.splits)

text \<open>The definitions that evaluate the segment report on a concrete input.\<close>

lemmas eval_segment = segment_stability_def columns_def column_of_def value_counts_def head_def
  mapping_def strip_def lower_def lower_char_def is_space_def group_mean_def Let_def

text \<open>
  Claim C6 as stated fails on a data set without any segment value: no record is reported,
  so the shares sum to 0, although \<open>top_k\<close> is at least the number of distinct values.
\<close>

theorem segment_shares_counterexample:
  "segment_stability example_str \<lparr>nrows = 0, cols = [(''seg'', ObjCol [])]\<rparr> ''seg'' None 15 =
     SegFrame \<lparr>segment = [], count = [], pct = [], target_rate = None\<rparr> \<and>
   int (card {v \<in> set (astype_object (ObjCol [])). \<not> isna v}) \<le> 15 \<and>
   sum_list (pct \<lparr>segment = [], count = [], pct = [], target_rate = None\<rparr>) \<noteq> 1"
  by (simp add: eval_segment)

text \<open>
  Claim C6, amended. When the segment column exists, the report keeps the first \<open>top_k\<close>
  entries of the frequency counts, which are in descending order of count and hold each
  value that is not missing once, with its number of occurrences; every share is the
  record's count divided by the sum of the reported counts; and when at least one segment
  value is present and \<open>top_k\<close> is at least the number of distinct values, the shares sum
  to 1.
\<close>

theorem segment_shares:
  assumes "segment_col \<in> set (columns df)"
  shows "\<exists>out. segment_stability num_str df segment_col target_col top_k = SegFrame out \<and>
     (let seg = astype_object (column_of df segment_col);
          vc = value_counts seg;
          kept = head top_k vc
      in segment out = map (\<lambda>(k, c). str_of num_str k) kept \<and>
         count out = map snd kept \<and>
         (0 \<le> top_k \<longrightarrow> kept = take (nat top_k) vc) \<and>
         sorted_wrt (\<ge>) (map snd vc) \<and>
         distinct (map fst vc) \<and>
         fst ` set vc = {v \<in> set seg. \<not> isna v} \<and>
         length vc = card {v \<in> set seg. \<not> isna v} \<and>
         (\<forall>(k, c) \<in> set vc. c = count_list seg k \<and> 0 < c) \<and>
         pct out = map (\<lambda>c. real c / real (sum_list (count out))) (count out) \<and>
         (vc \<noteq> [] \<and> int (length vc) \<le> top_k \<longrightarrow> sum_list (pct out) = 1))"
proof -
  let ?seg = "astype_object (column_of df segment_col)"
  let ?vc = "value_counts ?seg"
  let ?kept = "head top_k ?vc"
  from segment_stability_fields [OF assms, of num_str target_col top_k] obtain out
    where out: "segment_stability num_str df segment_col target_col top_k = SegFrame out"
      and seg: "segment out = map (\<lambda>(k, c). str_of num_str k) ?kept"
      and cnt: "count out = map snd ?kept"
      and pct: "pct out = map (\<lambda>c. real c / real (max (sum_list (count out)) 1)) (count out)"
    by blast
  have pos: "\<forall>c \<in> set (count out). 0 < c"
    using head_subset [of top_k ?vc] value_counts_positive(2) [of _ _ ?seg]
    by (auto simp: cnt)
  have shares: "pct out = map (\<lambda>c. real c / real (sum_list (count out))) (count out)"
    unfolding pct by (rule shares_reported_total [OF pos])
  have one: "sum_list (pct out) = 1" if "?vc \<noteq> []" and "int (length ?vc) \<le> top_k"
  proof -
    from that have "count out \<noteq> []" by (simp add: cnt head_all)
    from shares_sum_one [OF this pos] show ?thesis by (simp add: pct)
  qed
  have counts: "\<forall>(k, c) \<in> set ?vc. c = count_list ?seg k \<and> 0 < c"
    using value_counts_positive [of _ _ ?seg] by blast
  have tk: "0 \<le> top_k \<longrightarrow> ?kept = take (nat top_k) ?vc"
    by (simp add: head_def)
  show ?thesis
    unfolding Let_def
    using out seg cnt tk value_counts_descending [of ?seg] value_counts_distinct [of ?seg]
      value_counts_keys [of ?seg] value_counts_length [of ?seg] counts shares one
    by blast
qed

text \<open>The example of the specification with \<open>top_k = 2\<close>, and all three segments with \<open>top_k = 3\<close>.\<close>

theorem segment_shares_witness:
  "''seg'' \<in> set (columns segment_frame) \<and>
   segment_stability example_str segment_frame ''seg'' None 2 =
     SegFrame \<lparr>segment = [''A'', ''B''], count = [3, 2], pct = [3 / 5, 2 / 5], target_rate = None\<rparr> \<and>
   segment_stability example_str segment_frame ''seg'' None 3 =
     SegFrame \<lparr>segment = [''A'', ''B'', ''C''], count = [3, 2, 1], pct = [1 / 2, 1 / 3, 1 / 6],
               target_rate = None\<rparr> \<and>
   sum_list [1 / 2, 1 / 3, 1 / 6 :: real] = 1"
proof -
  let ?vc = "value_counts (astype_object (column_of segment_frame ''seg''))"
  have c: "''seg'' \<in> set (columns segment_frame)"
    by (simp add: columns_def segment_frame_def)
  have vc: "?vc = [(PStr ''A'', 3), (PStr ''B'', 2), (PStr ''C'', 1)]"
    by (simp add: column_of_def segment_frame_def value_counts_def)
  have 2: "segment_stability example_str segment_frame ''seg'' None 2 =
     SegFrame \<lparr>segment = [''A'', ''B''], count = [3, 2], pct = [3 / 5, 2 / 5], target_rate = None\<rparr>"
    by (simp add: eval_segment segment_frame_def)
  have 3: "segment_stability example_str segment_frame ''seg'' None 3 =
     SegFrame \<lparr>segment = [''A'', ''B'', ''C''], count = [3, 2, 1], pct = [1 / 2, 1 / 3, 1 / 6],
               target_rate = None\<rparr>"
    by (simp add: eval_segment segment_frame_def)
  from segment_shares [OF c, of example_str None 3] obtain out
    where out: "segment_stability example_str segment_frame ''seg'' None 3 = SegFrame out"
      and one: "?vc \<noteq> [] \<and> int (length ?vc) \<le> 3 \<longrightarrow> sum_list (pct out) = 1"
    unfolding Let_def by blast
  from one have "sum_list (pct out) = 1"
    by (simp add: vc)
  moreover from out 3 have "pct out = [1 / 2, 1 / 3, 1 / 6]"
    by auto
  ultimately have "sum_list [1 / 2, 1 / 3, 1 / 6 :: real] = 1"
    by (simp only:)
  with c 2 3 show ?thesis by (simp only: simp_thms)
qed

subsection \<open>The target rate\<close>

text \<open>
  Claim C5 fails on a segment column that does not hold text. With the integer segments
  1, 1, 2 and the targets yes, no, yes the field is attached, but each rate is NaN: the
  labels "1" and "2" are looked up among the group keys 1 and 2. The means of the two
  groups are 1/2 and 1.
\<close>

theorem target_rate_label_mismatch:
  "segment_stability example_str
     \<lparr>nrows = 3, cols = [(''seg'', NumCol [Some 1, Some 1, Some 2]),
                         (''y'', ObjCol [PStr ''yes'', PStr ''no'', PStr ''yes''])]\<rparr>
     ''seg'' (Some ''y'') 15 =
   SegFrame \<lparr>segment = [''1'', ''2''], count = [2, 1], pct = [2 / 3, 1 / 3],
             target_rate = Some [None, None]\<rparr> \<and>
   group_mean (zip [PNum 1, PNum 1, PNum 2] [Some 1, Some 0, Some 1]) (PNum 1) = Some (1 / 2) \<and>
   group_mean (zip [PNum 1, PNum 1, PNum 2] [Some 1, Some 0, Some 1]) (PNum 2) = Some 1"
  by (simp add: eval_segment example_str_def del: concat_eq_Nil_conv)


text \<open>
  What the code does with a supplied target column: the field is attached exactly when
  every stringified, lowercased and trimmed value is in the vocabulary, and it holds, for
  each label, the mean of the group whose key is that text.
\<close>

lemma target_rate_attached_iff:
  assumes "segment_col \<in> set (columns df)" and "tc \<noteq> []" and "tc \<in> set (columns df)"
  shows "\<exists>out. segment_stability num_str df segment_col (Some tc) top_k = SegFrame out \<and>
     (let seg = astype_object (column_of df segment_col);
          y2 = map (\<lambda>v. strip (lower (str_of num_str v))) (astype_object (column_of df tc))
      in (target_rate out \<noteq> None \<longleftrightarrow>
            set y2 \<subseteq> {''1'', ''0'', ''yes'', ''no'', ''true'', ''false''}) \<and>
         (\<forall>rates. target_rate out = Some rates \<longrightarrow>
            rates = map (\<lambda>l. group_mean (zip seg (map (map_of mapping) y2)) (PStr l)) (segment out)))"
proof -
  have vocab: "set (map fst mapping) = {''1'', ''0'', ''yes'', ''no'', ''true'', ''false''}"
    by (simp add: mapping_def)
  show ?thesis
    using assms unfolding segment_stability_def Let_def vocab [symmetric]
    by (simp del: set_map)
qed

end
